theory Spec2Isabelle
  imports Main "HOL-Library.AList"
begin

section \<open>Python values\<close>

text \<open>
  The handler is Python. Its \<open>bytes\<close> are lists of 8-bit characters. A \<open>str\<close> is
  represented by its UTF-8 encoding, so it is a list of 8-bit characters too: \<open>str.encode()\<close>
  is then the identity, and \<open>bytes.decode()\<close> (strict UTF-8) returns its argument when that
  is well-formed UTF-8 and raises \<open>UnicodeDecodeError\<close> otherwise.

  Exceptions are values of the type \<open>error\<close>; a function that may raise returns
  \<open>error + 'a\<close>, with \<open>Inl\<close> for the exception.
\<close>

type_synonym bytes = string
type_synonym str = string

datatype error =
    UnicodeDecodeError
  | IndexError
  | TypeError
  | JSONDecodeError
  | MultiPartParserError
  | InvalidOperationTypeError
  | MethodNotAllowed
  | ExecutionError
  | HTTPException int str
  | OtherError str

subsection \<open>UTF-8\<close>

text \<open>
  A lead byte fixes the ranges its trailing bytes must lie in (RFC 3629: no overlong
  forms, no surrogates, nothing above U+10FFFF).
\<close>

type_synonym byte_range = "nat \<times> nat"

datatype lead = Ascii | Illegal | Lead "byte_range list"

definition in_range :: "byte_range \<Rightarrow> char \<Rightarrow> bool" where
  "in_range r b = (fst r \<le> of_char b \<and> (of_char b :: nat) \<le> snd r)"

definition cont :: byte_range where
  "cont = (0x80, 0xBF)"

definition utf8_lead :: "char \<Rightarrow> lead" where
  "utf8_lead b =
     (let n = of_char b :: nat in
      if n < 0x80 then Ascii
      else if 0xC2 \<le> n \<and> n \<le> 0xDF then Lead [cont]
      else if n = 0xE0 then Lead [(0xA0, 0xBF), cont]
      else if n = 0xED then Lead [(0x80, 0x9F), cont]
      else if 0xE1 \<le> n \<and> n \<le> 0xEF then Lead [cont, cont]
      else if n = 0xF0 then Lead [(0x90, 0xBF), cont, cont]
      else if 0xF1 \<le> n \<and> n \<le> 0xF3 then Lead [cont, cont, cont]
      else if n = 0xF4 then Lead [(0x80, 0x8F), cont, cont]
      else Illegal)"

text \<open>
  \<open>utf8_wellformed rs bs\<close>: the bytes \<open>bs\<close> are well-formed UTF-8 once the trailing
  bytes still owed to the current character, one per range of \<open>rs\<close>, have been read.
\<close>

fun utf8_wellformed :: "byte_range list \<Rightarrow> bytes \<Rightarrow> bool" where
  "utf8_wellformed rs [] = (rs = [])"
| "utf8_wellformed [] (b # bs) =
     (case utf8_lead b of
        Ascii \<Rightarrow> utf8_wellformed [] bs
      | Illegal \<Rightarrow> False
      | Lead rs \<Rightarrow> utf8_wellformed rs bs)"
| "utf8_wellformed (r # rs) (b # bs) = (in_range r b \<and> utf8_wellformed rs bs)"

definition decode :: "bytes \<Rightarrow> error + str" where
  "decode b = (if utf8_wellformed [] b then Inr b else Inl UnicodeDecodeError)"

definition encode :: "str \<Rightarrow> bytes" where
  "encode s = s"

text \<open>
  \<open>bytes.decode('utf-8', 'replace')\<close> never raises: each maximal ill-formed run (a lead
  byte with the trailing bytes that were still acceptable, or one illegal byte) becomes
  U+FFFD, and decoding resumes at the byte that did not fit. \<open>pend\<close> holds the bytes of
  the character being read.
\<close>

definition replacement :: str where
  "replacement = [CHR 0xEF, CHR 0xBF, CHR 0xBD]"

fun decode_replace :: "byte_range list \<Rightarrow> bytes \<Rightarrow> bytes \<Rightarrow> str" where
  "decode_replace [] pend [] = []"
| "decode_replace (r # rs) pend [] = replacement"
| "decode_replace [] pend (b # bs) =
     (case utf8_lead b of
        Ascii \<Rightarrow> b # decode_replace [] [] bs
      | Illegal \<Rightarrow> replacement @ decode_replace [] [] bs
      | Lead rs \<Rightarrow> decode_replace rs [b] bs)"
| "decode_replace (r # rs) pend (b # bs) =
     (if in_range r b then
        (if rs = [] then pend @ b # decode_replace [] [] bs
         else decode_replace rs (pend @ [b]) bs)
      else replacement @
        (case utf8_lead b of
           Ascii \<Rightarrow> b # decode_replace [] [] bs
         | Illegal \<Rightarrow> replacement @ decode_replace [] [] bs
         | Lead rs' \<Rightarrow> decode_replace rs' [b] bs))"

subsection \<open>Case folding\<close>

text \<open>
  \<open>str.lower()\<close> on the ASCII letters. HTTP field names are ASCII tokens, and on those
  this is all that \<open>str.lower()\<close> does.
\<close>

definition lower_char :: "char \<Rightarrow> char" where
  "lower_char c =
     (if 0x41 \<le> (of_char c :: nat) \<and> (of_char c :: nat) \<le> 0x5A
      then char_of (of_char c + (0x20 :: nat)) else c)"

definition lower :: "str \<Rightarrow> str" where
  "lower s = map lower_char s"

subsection \<open>Dictionaries\<close>

text \<open>
  A \<open>dict\<close> is an association list in insertion order with distinct keys. \<open>d[k] = v\<close>
  is \<open>AList.update k v d\<close>: it overwrites the value of a key that is present, in place,
  and appends a new key at the end. \<open>d.get(k)\<close> is \<open>map_of d k\<close>, and \<open>k in d\<close>
  is \<open>map_of d k \<noteq> None\<close>.
\<close>

type_synonym ('k, 'v) dict = "('k \<times> 'v) list"

definition dict_get :: "('k, 'v) dict \<Rightarrow> 'k \<Rightarrow> 'v \<Rightarrow> 'v" where
  "dict_get d k dflt = (case map_of d k of None \<Rightarrow> dflt | Some v \<Rightarrow> v)"

section \<open>The standard library's query-string parser\<close>

text \<open>
  \<open>urllib.parse.parse_qs\<close> with the defaults the handler leaves in place: separator
  \<open>&\<close>, no strict parsing, no limit on the number of fields, UTF-8 with
  \<open>errors='replace'\<close>.
\<close>

fun split_on :: "char \<Rightarrow> string \<Rightarrow> string list" where
  "split_on sep [] = [[]]"
| "split_on sep (c # cs) =
     (if c = sep then [] # split_on sep cs
      else (case split_on sep cs of
              [] \<Rightarrow> [[c]]
            | w # ws \<Rightarrow> (c # w) # ws))"

definition partition_on :: "char \<Rightarrow> string \<Rightarrow> string \<times> string" where
  "partition_on sep s = (takeWhile (\<lambda>c. c \<noteq> sep) s, drop 1 (dropWhile (\<lambda>c. c \<noteq> sep) s))"

definition hexval :: "char \<Rightarrow> nat option" where
  "hexval c =
     (let n = of_char c :: nat in
      if 0x30 \<le> n \<and> n \<le> 0x39 then Some (n - 0x30)
      else if 0x41 \<le> n \<and> n \<le> 0x46 then Some (n - 0x37)
      else if 0x61 \<le> n \<and> n \<le> 0x66 then Some (n - 0x57)
      else None)"

definition hextobyte :: "string \<Rightarrow> char option" where
  "hextobyte s =
     (case s of
        [a, b] \<Rightarrow>
          (case hexval a of
             None \<Rightarrow> None
           | Some x \<Rightarrow> (case hexval b of None \<Rightarrow> None | Some y \<Rightarrow> Some (char_of (16 * x + y))))
      | _ \<Rightarrow> None)"

definition unquote_item :: "string \<Rightarrow> bytes" where
  "unquote_item item =
     (case hextobyte (take 2 item) of
        Some b \<Rightarrow> b # drop 2 item
      | None \<Rightarrow> CHR ''%'' # item)"

definition unquote_to_bytes :: "str \<Rightarrow> bytes" where
  "unquote_to_bytes s =
     (case split_on CHR ''%'' s of
        [] \<Rightarrow> []
      | b0 # items \<Rightarrow> b0 @ concat (map unquote_item items))"

text \<open>
  \<open>unquote\<close> decodes the escapes of each ASCII run of its argument and leaves the other
  characters as they are. Those are complete well-formed sequences of the representation,
  so that is decoding the unquoted bytes of the whole string.
\<close>

definition unquote :: "str \<Rightarrow> str" where
  "unquote s = (if CHR ''%'' \<notin> set s then s else decode_replace [] [] (unquote_to_bytes s))"

definition unquote_plus :: "str \<Rightarrow> str" where
  "unquote_plus s = unquote (map (\<lambda>c. if c = CHR ''+'' then CHR '' '' else c) s)"

definition parse_field :: "bool \<Rightarrow> str \<Rightarrow> (str \<times> str) list" where
  "parse_field keep_blank_values name_value =
     (if name_value \<noteq> [] then
        (let (name, val) = partition_on CHR ''='' name_value in
         if val \<noteq> [] \<or> keep_blank_values then [(unquote_plus name, unquote_plus val)] else [])
      else [])"

definition parse_qsl :: "str \<Rightarrow> bool \<Rightarrow> (str \<times> str) list" where
  "parse_qsl qs keep_blank_values =
     (if qs = [] then [] else concat (map (parse_field keep_blank_values) (split_on CHR ''&'' qs)))"

fun group_pairs :: "(str, str list) dict \<Rightarrow> (str \<times> str) list \<Rightarrow> (str, str list) dict" where
  "group_pairs parsed_result [] = parsed_result"
| "group_pairs parsed_result ((name, val) # pairs) =
     group_pairs
       (case map_of parsed_result name of
          Some vs \<Rightarrow> AList.update name (vs @ [val]) parsed_result
        | None \<Rightarrow> AList.update name [val] parsed_result)
       pairs"

definition parse_qs :: "str \<Rightarrow> bool \<Rightarrow> (str, str list) dict" where
  "parse_qs qs keep_blank_values = group_pairs [] (parse_qsl qs keep_blank_values)"

section \<open>The request and the response\<close>

text \<open>
  \<open>Request.consumer\<close> is the ASGI scope of the connection. The adapter reads three of
  its entries: \<open>"method"\<close>, \<open>"query_string"\<close> and \<open>"headers"\<close>, the last a list of
  (name, value) pairs of bytes.
\<close>

record scope =
  scope_method :: str
  scope_query_string :: bytes
  scope_headers :: "(bytes \<times> bytes) list"

record Request =
  consumer :: scope
  body :: bytes

record Result =
  response :: bytes
  status :: int
  content_type :: str
  headers :: "(bytes, bytes) dict option"

definition new_Result :: "bytes \<Rightarrow> Result" where
  "new_Result r = \<lparr>response = r, status = 200, content_type = ''application/json'', headers = None\<rparr>"

text \<open>
  Modelled from the spec: \<open>TemporalResponse\<close> (strawberry.http.temporal_response, not
  among the sources), the spec's SubResponse: "mutable
  \<open>{status_code: optional<int>, headers: map<string,string>}\<close>, created fresh per request
  before execution, passed into the execution context so resolvers may set
  cookies/status/headers".
\<close>

record TemporalResponse =
  status_code :: "int option"
  headers :: "(str, str) dict"

section \<open>ChannelsRequestAdapter\<close>

text \<open>
  \<open>query_params\<close>: the loop over the items of the parsed dictionary keeps \<open>value[0]\<close>
  of each key; \<open>value[0]\<close> of an empty list raises \<open>IndexError\<close>.
\<close>

fun first_values :: "(str, str) dict \<Rightarrow> (str \<times> str list) list \<Rightarrow> error + (str, str) dict" where
  "first_values query_params [] = Inr query_params"
| "first_values query_params ((key, val) # items) =
     (case val of
        [] \<Rightarrow> Inl IndexError
      | v0 # _ \<Rightarrow> first_values (AList.update key v0 query_params) items)"

definition query_params :: "Request \<Rightarrow> error + (str, str) dict" where
  "query_params request =
     (case decode (scope_query_string (consumer request)) of
        Inl e \<Rightarrow> Inl e
      | Inr query_params_str \<Rightarrow> first_values [] (parse_qs query_params_str True))"

text \<open>
  \<open>headers\<close>: the dictionary comprehension decodes and lower-cases each name, decodes
  each value, and stores the pair; a later pair with the same lower-cased name overwrites
  the value of an earlier one.
\<close>

fun headers_from :: "(str, str) dict \<Rightarrow> (bytes \<times> bytes) list \<Rightarrow> error + (str, str) dict" where
  "headers_from d [] = Inr d"
| "headers_from d ((header_name, header_value) # rest) =
     (case decode header_name of
        Inl e \<Rightarrow> Inl e
      | Inr name \<Rightarrow>
          (case decode header_value of
             Inl e \<Rightarrow> Inl e
           | Inr val \<Rightarrow> headers_from (AList.update (lower name) val d) rest))"

definition headers :: "Request \<Rightarrow> error + (str, str) dict" where
  "headers request = headers_from [] (scope_headers (consumer request))"

definition content_type :: "Request \<Rightarrow> error + str option" where
  "content_type request =
     (case headers request of
        Inl e \<Rightarrow> Inl e
      | Inr h \<Rightarrow> Inr (map_of h ''content-type''))"


text \<open>
  \<open>get_form_data\<close> hands Django's \<open>MultiPartParser\<close> a dictionary of the two header
  values, a new \<open>BytesIO\<close> over the body and the upload handlers of the settings. The
  parser, the upload handlers and \<open>json.loads\<close> belong to Django and to the standard
  library; they are parameters. The parser reads from the stream it is given, so it returns
  the stream as it leaves it besides its result. A \<open>QueryDict\<close> is given by what its
  \<open>get\<close> finds under a key; \<open>json_loads\<close> returns \<open>None\<close> where
  \<open>json.loads\<close> raises \<open>JSONDecodeError\<close>.
\<close>

record BytesIO =
  buf :: bytes
  pos :: nat

definition new_BytesIO :: "bytes \<Rightarrow> BytesIO" where
  "new_BytesIO initial_bytes = \<lparr>buf = initial_bytes, pos = 0\<rparr>"

definition unread :: "BytesIO \<Rightarrow> bytes" where
  "unread stream = drop (pos stream) (buf stream)"

record META =
  CONTENT_TYPE :: "str option"
  CONTENT_LENGTH :: str

type_synonym QueryDict = "str \<rightharpoonup> str"

type_synonym ('h, 'f) MultiPartParser =
  "META \<Rightarrow> BytesIO \<Rightarrow> 'h \<Rightarrow> (error + QueryDict \<times> 'f) \<times> BytesIO"

definition querydict_get :: "QueryDict \<Rightarrow> str \<Rightarrow> str \<Rightarrow> str" where
  "querydict_get querydict k dflt = (case querydict k of None \<Rightarrow> dflt | Some v \<Rightarrow> v)"

record ('f, 'j) FormData =
  files :: 'f
  form :: "(str, 'j) dict"

definition parser_META :: "(str, str) dict \<Rightarrow> META" where
  "parser_META h =
     \<lparr>CONTENT_TYPE = map_of h ''content-type'',
      CONTENT_LENGTH = dict_get h ''content-length'' ''0''\<rparr>"

definition get_form_data ::
  "(str \<Rightarrow> 'j option) \<Rightarrow> ('h, 'f) MultiPartParser \<Rightarrow> 'h \<Rightarrow> Request \<Rightarrow> error + ('f, 'j) FormData" where
  "get_form_data json_loads parse upload_handlers request =
     (case headers request of
        Inl e \<Rightarrow> Inl e
      | Inr h \<Rightarrow>
          (case fst (parse (parser_META h) (new_BytesIO (body request)) upload_handlers) of
             Inl e \<Rightarrow> Inl e
           | Inr (querydict, uploaded) \<Rightarrow>
               (case json_loads (querydict_get querydict ''operations'' '''') of
                  None \<Rightarrow> Inl JSONDecodeError
                | Some operations \<Rightarrow>
                    (case json_loads (querydict_get querydict ''map'' '''') of
                       None \<Rightarrow> Inl JSONDecodeError
                     | Some file_map \<Rightarrow>
                         Inr \<lparr>files = uploaded,
                              form = [(''operations'', operations), (''map'', file_map)]\<rparr>))))"





section \<open>GraphQLHTTPConsumer\<close>

record GraphQLHTTPConsumer =
  graphiql :: bool
  allow_queries_via_get :: bool
  subscriptions_enabled :: bool
  scope :: scope

text \<open>
  What \<open>send_response\<close> is called with; \<open>headers\<close> is \<open>None\<close> when the call leaves
  the argument out.
\<close>

record sent =
  sent_status :: int
  sent_body :: bytes
  sent_headers :: "(bytes, bytes) dict option"

definition send_response :: "int \<Rightarrow> bytes \<Rightarrow> (bytes, bytes) dict option \<Rightarrow> sent" where
  "send_response st b hs = \<lparr>sent_status = st, sent_body = b, sent_headers = hs\<rparr>"

text \<open>
  \<open>handle\<close>: \<open>run\<close> is the base view's method (strawberry.http.async_base_view, not
  among the sources), a parameter. An \<open>HTTPException\<close> it raises is answered; any other
  exception leaves \<open>handle\<close>.
\<close>

definition handle ::
  "(Request \<Rightarrow> error + Result) \<Rightarrow> 'a GraphQLHTTPConsumer_scheme \<Rightarrow> bytes \<Rightarrow> error + sent" where
  "handle run self body' =
     (let request = \<lparr>consumer = scope self, body = body'\<rparr> in
      case run request of
        Inr result \<Rightarrow>
          (let hs = (case Result.headers result of None \<Rightarrow> [] | Some h \<Rightarrow> h);
               hs = (if map_of hs ''Content-Type'' = None
                     then AList.update ''Content-Type'' (encode (Result.content_type result)) hs
                     else hs)
           in Inr (send_response (status result) (response result) (Some hs)))
      | Inl (HTTPException code reason) \<Rightarrow> Inr (send_response code (encode reason) None)
      | Inl e \<Rightarrow> Inl e)"

text \<open>
  \<open>create_response\<close>: \<open>json.dumps\<close> is a parameter. The two tests are Python truth
  tests: a status code that is \<open>None\<close> or \<open>0\<close> is false, and so is an empty dictionary.
\<close>

fun encode_items :: "(bytes, bytes) dict \<Rightarrow> (str \<times> str) list \<Rightarrow> (bytes, bytes) dict" where
  "encode_items d [] = d"
| "encode_items d ((k, v) # items) = encode_items (AList.update (encode k) (encode v) d) items"

definition create_response :: "('r \<Rightarrow> str) \<Rightarrow> 'r \<Rightarrow> TemporalResponse \<Rightarrow> Result" where
  "create_response json_dumps response_data sub_response =
     (let result = new_Result (encode (json_dumps response_data));
          result = (case status_code sub_response of
                      None \<Rightarrow> result
                    | Some code \<Rightarrow> if code \<noteq> 0 then result\<lparr>status := code\<rparr> else result);
          result = (if TemporalResponse.headers sub_response \<noteq> []
                    then result\<lparr>Result.headers :=
                           Some (encode_items [] (TemporalResponse.headers sub_response))\<rparr>
                    else result)
      in result)"

text \<open>
  \<open>render_graphiql\<close>: \<open>get_graphiql_html\<close> (strawberry.utils.graphiql, not among the
  sources) is a parameter.
\<close>

definition render_graphiql ::
  "(bool \<Rightarrow> str) \<Rightarrow> 'a GraphQLHTTPConsumer_scheme \<Rightarrow> Request \<Rightarrow> Result" where
  "render_graphiql get_graphiql_html self request =
     (let html = get_graphiql_html (subscriptions_enabled self) in
      (new_Result (encode html))\<lparr>Result.content_type := ''text/html''\<rparr>)"

section \<open>SyncGraphQLHTTPConsumer\<close>



record 'v GraphQLRequestData =
  query :: "str option"
  variables :: "'v option"
  operation_name :: "str option"





text \<open>
  Modelled from the spec: the extraction step of the base view's \<open>run\<close>
  (strawberry.http.async_base_view, not among the sources) for a multipart request.
  "Extraction error (malformed JSON, missing required field, inconsistent multipart map):
  surfaced as a client error (400-class), never reaches the engine"; "maps to HTTP 400".
  \<open>reason\<close> is the text of the error and \<open>continue\<close> the rest of \<open>run\<close>, the engine
  included.
\<close>

definition run_multipart ::
  "(str \<Rightarrow> 'j option) \<Rightarrow> ('h, 'f) MultiPartParser \<Rightarrow> 'h \<Rightarrow> str
     \<Rightarrow> (('f, 'j) FormData \<Rightarrow> error + Result) \<Rightarrow> Request \<Rightarrow> error + Result" where
  "run_multipart json_loads parse upload_handlers reason continue request =
     (case get_form_data json_loads parse upload_handlers request of
        Inl JSONDecodeError \<Rightarrow> Inl (HTTPException 400 reason)
      | Inl e \<Rightarrow> Inl e
      | Inr form_data \<Rightarrow> continue form_data)"

section \<open>Vocabulary of the properties\<close>

text \<open>The values a key has in a list of (key, value) pairs, in order.\<close>

definition values_of :: "str \<Rightarrow> (str \<times> str) list \<Rightarrow> str list" where
  "values_of k pairs = map snd (filter (\<lambda>p. fst p = k) pairs)"

text \<open>
  A field of the multipart body is malformed when it is absent or when its text is not
  valid JSON.
\<close>

definition malformed_field :: "(str \<Rightarrow> 'j option) \<Rightarrow> QueryDict \<Rightarrow> str \<Rightarrow> bool" where
  "malformed_field json_loads querydict k =
     (case querydict k of None \<Rightarrow> True | Some s \<Rightarrow> json_loads s = None)"

text \<open>
  What the properties use of Django's \<open>MultiPartParser\<close>: given no content type it
  raises (its constructor calls \<open>startswith\<close> on it), and given a content length of
  \<open>0\<close> it returns an empty \<open>QueryDict\<close> if it returns at all.
\<close>

definition django_parser :: "('h, 'f) MultiPartParser \<Rightarrow> bool" where
  "django_parser parse \<longleftrightarrow>
     (\<forall>meta stream handlers.
        (CONTENT_TYPE meta = None \<longrightarrow> (\<exists>e. fst (parse meta stream handlers) = Inl e))
      \<and> (CONTENT_LENGTH meta = ''0'' \<longrightarrow>
           (\<forall>querydict uploaded. fst (parse meta stream handlers) = Inr (querydict, uploaded)
              \<longrightarrow> querydict = Map.empty)))"

section \<open>Example values\<close>

definition request_of_query :: "bytes \<Rightarrow> Request" where
  "request_of_query qs =
     \<lparr>consumer = \<lparr>scope_method = ''GET'', scope_query_string = qs, scope_headers = []\<rparr>, body = []\<rparr>"

definition post_scope :: "(bytes \<times> bytes) list \<Rightarrow> scope" where
  "post_scope hs = \<lparr>scope_method = ''POST'', scope_query_string = [], scope_headers = hs\<rparr>"

definition post_request :: "(bytes \<times> bytes) list \<Rightarrow> bytes \<Rightarrow> Request" where
  "post_request hs b = \<lparr>consumer = post_scope hs, body = b\<rparr>"

definition post_consumer :: "(bytes \<times> bytes) list \<Rightarrow> GraphQLHTTPConsumer" where
  "post_consumer hs =
     \<lparr>graphiql = True, allow_queries_via_get = True, subscriptions_enabled = True,
      scope = post_scope hs\<rparr>"

definition get_consumer :: GraphQLHTTPConsumer where
  "get_consumer =
     \<lparr>graphiql = True, allow_queries_via_get = False, subscriptions_enabled = True,
      scope = \<lparr>scope_method = ''GET'', scope_query_string = ''query=%7Bhello%7D'',
               scope_headers = []\<rparr>\<rparr>"

definition plain_consumer :: GraphQLHTTPConsumer where
  "plain_consumer =
     \<lparr>graphiql = False, allow_queries_via_get = False, subscriptions_enabled = True,
      scope = post_scope [(''Accept'', ''text/html'')]\<rparr>"





definition run_405 :: "Request \<Rightarrow> error + Result" where
  "run_405 request = Inl (HTTPException 405 ''GraphQL only supports GET and POST requests.'')"

definition cookie_response :: TemporalResponse where
  "cookie_response =
     \<lparr>status_code = Some 201,
      headers = [(''Set-Cookie'', ''a=b''), (''Content-Type'', ''text/plain'')]\<rparr>"


definition execute_form :: "(str list, str) FormData \<Rightarrow> error + Result" where
  "execute_form form_data = Inr (create_response id ''{\"data\": null}'' cookie_response)"

definition page :: "bool \<Rightarrow> str" where
  "page subscriptions = (if subscriptions then ''<html>ws</html>'' else ''<html></html>'')"

definition upper_request :: Request where
  "upper_request = post_request [(''Content-Type'', ''application/json''), (''ACCEPT'', ''*/*'')] ''{}''"


text \<open>
  Stand-ins for \<open>json.loads\<close> and for the parser in the examples: the first accepts two
  texts, the second reads its fields from a URL-encoded body.
\<close>

definition demo_json_loads :: "str \<Rightarrow> str option" where
  "demo_json_loads s = (if s = ''{}'' \<or> s = ''null'' then Some s else None)"

definition demo_parser :: "(unit, str list) MultiPartParser" where
  "demo_parser meta stream handlers =
     (if CONTENT_TYPE meta = None then (Inl TypeError, stream)
      else if CONTENT_LENGTH meta = ''0'' then (Inr (Map.empty, []), stream)
      else (Inr (map_of (parse_qsl (unread stream) True), []),
            stream\<lparr>pos := length (buf stream)\<rparr>))"

definition multipart_headers :: "bytes \<Rightarrow> (bytes \<times> bytes) list" where
  "multipart_headers content_length =
     [(''Content-Type'', ''multipart/form-data; boundary=x''), (''Content-Length'', content_length)]"

section \<open>Operation types allowed over GET\<close>



section \<open>The status of a built response\<close>

text \<open>
  C4, as amended. The status of the \<open>Result\<close> that \<open>create_response\<close> builds is the
  status code of the sub-response when one is set and is not \<open>0\<close>, and \<open>200\<close>
  otherwise; the response data and its serialisation, with or without errors, have no part
  in it.
\<close>

theorem create_response_status:
  "status (create_response json_dumps response_data sub_response) =
     (case status_code sub_response of
        None \<Rightarrow> 200
      | Some code \<Rightarrow> if code = 0 then 200 else code)"
  by (simp add: create_response_def new_Result_def Let_def split: option.split)

text \<open>
  C4 as stated fails where a resolver sets the status code \<open>0\<close>: the truth test of
  \<open>create_response\<close> takes it for unset, and the status is \<open>200\<close>.
\<close>

theorem create_response_status_counterexample:
  "status (create_response id ''{\"data\": null}'' \<lparr>status_code = Some 0, headers = []\<rparr>) = 200"
  by (simp add: create_response_def new_Result_def)

section \<open>Transport errors\<close>

text \<open>
  C6. When \<open>run\<close> raises an \<open>HTTPException\<close>, \<open>handle\<close> calls \<open>send_response\<close> with
  the status code of the exception and its reason, encoded, as the whole body, and passes
  no headers: no JSON is built and no \<open>Content-Type\<close> is added.
\<close>

theorem handle_http_exception:
  assumes "run \<lparr>consumer = scope self, body = b\<rparr> = Inl (HTTPException code reason)"
  shows "handle run self b =
           Inr \<lparr>sent_status = code, sent_body = encode reason, sent_headers = None\<rparr>"
  using assms by (simp add: handle_def send_response_def)

theorem handle_http_exception_witness:
  "run_405 \<lparr>consumer = scope plain_consumer, body = ''{}''\<rparr>
     = Inl (HTTPException 405 ''GraphQL only supports GET and POST requests.'')
   \<and> handle run_405 plain_consumer ''{}'' =
       Inr \<lparr>sent_status = 405, sent_body = ''GraphQL only supports GET and POST requests.'',
            sent_headers = None\<rparr>"
  using handle_http_exception [of run_405 plain_consumer "''{}''" 405
      "''GraphQL only supports GET and POST requests.''"]
  by (simp add: run_405_def encode_def)

section \<open>The GraphiQL page\<close>

text \<open>
  C8. \<open>render_graphiql\<close> returns a \<open>Result\<close> with content type \<open>text/html\<close> and status
  \<open>200\<close> whose body is the page for the \<open>subscriptions_enabled\<close> flag: two consumers
  that agree on the flag give the same \<open>Result\<close>, whatever the two requests are.
\<close>

theorem render_graphiql_pure:
  "render_graphiql get_graphiql_html self request =
     \<lparr>response = encode (get_graphiql_html (subscriptions_enabled self)), status = 200,
      content_type = ''text/html'', headers = None\<rparr>
   \<and> (subscriptions_enabled self = subscriptions_enabled self' \<longrightarrow>
        render_graphiql get_graphiql_html self request =
        render_graphiql get_graphiql_html self' request')"
  by (simp add: render_graphiql_def new_Result_def)

theorem render_graphiql_pure_witness:
  "subscriptions_enabled get_consumer = subscriptions_enabled plain_consumer
   \<and> render_graphiql page get_consumer (request_of_query ''a=1'')
       = render_graphiql page plain_consumer upper_request
   \<and> request_of_query ''a=1'' \<noteq> upper_request
   \<and> status (render_graphiql page get_consumer (request_of_query ''a=1'')) = 200
   \<and> Result.content_type (render_graphiql page get_consumer (request_of_query ''a=1''))
       = ''text/html''"
proof -
  have s: "subscriptions_enabled get_consumer = subscriptions_enabled plain_consumer"
    by (simp add: get_consumer_def plain_consumer_def)
  have d: "request_of_query ''a=1'' \<noteq> upper_request"
    by (simp add: request_of_query_def upper_request_def post_request_def)
  note t = render_graphiql_pure [of page get_consumer "request_of_query ''a=1''" plain_consumer
      upper_request]
  from t s have e: "render_graphiql page get_consumer (request_of_query ''a=1'')
       = render_graphiql page plain_consumer upper_request"
    by blast
  from t have v: "render_graphiql page get_consumer (request_of_query ''a=1'') =
     \<lparr>response = encode (page (subscriptions_enabled get_consumer)), status = 200,
      content_type = ''text/html'', headers = None\<rparr>"
    by (rule conjunct1)
  have "status (render_graphiql page get_consumer (request_of_query ''a=1'')) = 200"
    by (simp add: v)
  moreover have "Result.content_type (render_graphiql page get_consumer (request_of_query ''a=1''))
       = ''text/html''"
    by (simp add: v)
  ultimately show ?thesis using s d e by blast
qed

section \<open>The body of the request\<close>


section \<open>Header names\<close>













section \<open>Query parameters\<close>

lemma group_pairs_distinct:
  "distinct (map fst acc) \<Longrightarrow> distinct (map fst (group_pairs acc pairs))"
proof (induction acc pairs rule: group_pairs.induct)
  case (1 parsed_result)
  then show ?case by simp
next
  case (2 parsed_result name val pairs)
  then show ?case by (simp add: distinct_update split: option.split)
qed

lemma map_of_group_pairs:
  "map_of (group_pairs acc pairs) k =
     (case map_of acc k of
        Some vs \<Rightarrow> Some (vs @ values_of k pairs)
      | None \<Rightarrow> if values_of k pairs = [] then None else Some (values_of k pairs))"
proof (induction acc pairs rule: group_pairs.induct)
  case (1 parsed_result)
  then show ?case by (simp add: values_of_def split: option.split)
next
  case (2 parsed_result name val pairs)
  then show ?case
    by (simp add: values_of_def update_conv' split: option.split)
qed

lemma parse_qs_lookup:
  "map_of (parse_qs qs kb) k =
     (if values_of k (parse_qsl qs kb) = [] then None else Some (values_of k (parse_qsl qs kb)))"
  by (simp add: parse_qs_def map_of_group_pairs)

lemma parse_qs_distinct: "distinct (map fst (parse_qs qs kb))"
  by (simp add: parse_qs_def group_pairs_distinct)

lemma parse_qs_nonempty: "(k, vs) \<in> set (parse_qs qs kb) \<Longrightarrow> vs \<noteq> []"
proof -
  assume "(k, vs) \<in> set (parse_qs qs kb)"
  with parse_qs_distinct have "map_of (parse_qs qs kb) k = Some vs" by simp
  then show ?thesis by (simp add: parse_qs_lookup split: if_splits)
qed

lemma first_values_lookup:
  assumes "distinct (map fst items)" and "\<forall>(k, vs)\<in>set items. vs \<noteq> []"
  shows "\<exists>d. first_values acc items = Inr d
           \<and> (\<forall>k. map_of d k = (case map_of items k of Some vs \<Rightarrow> Some (hd vs) | None \<Rightarrow> map_of acc k))
           \<and> (distinct (map fst acc) \<longrightarrow> distinct (map fst d))"
  using assms
proof (induction acc items rule: first_values.induct)
  case (1 query_params)
  then show ?case by simp
next
  case (2 query_params key val items)
  from "2.prems" obtain v0 vs where val: "val = v0 # vs" by (cases val) auto
  from "2.prems" have d: "distinct (map fst items)" and ne: "\<forall>(k, vs)\<in>set items. vs \<noteq> []"
    and fresh: "key \<notin> fst ` set items" by auto
  from "2.IH" [OF val d ne] obtain d' where
    r: "first_values (AList.update key v0 query_params) items = Inr d'"
    and l: "\<forall>k. map_of d' k = (case map_of items k of Some vs \<Rightarrow> Some (hd vs)
                | None \<Rightarrow> map_of (AList.update key v0 query_params) k)"
    and dd: "distinct (map fst (AList.update key v0 query_params)) \<longrightarrow> distinct (map fst d')"
    by blast
  from fresh have none: "map_of items key = None" by (simp add: map_of_eq_None_iff)
  show ?case
  proof (intro exI conjI allI impI)
    show "first_values query_params ((key, val) # items) = Inr d'" using r val by simp
  next
    fix k
    show "map_of d' k = (case map_of ((key, val) # items) k of Some vs \<Rightarrow> Some (hd vs)
                | None \<Rightarrow> map_of query_params k)"
      using l none val by (simp add: update_conv' split: option.split)
  next
    assume "distinct (map fst query_params)"
    then show "distinct (map fst d')" using dd by (simp add: distinct_update)
  qed
qed

lemma query_params_lookup:
  assumes "decode (scope_query_string (consumer request)) = Inr qs"
  shows "\<exists>d. query_params request = Inr d \<and> distinct (map fst d)
           \<and> (\<forall>k. map_of d k = (case values_of k (parse_qsl qs True) of [] \<Rightarrow> None | v # _ \<Rightarrow> Some v))"
proof -
  have ne: "\<forall>(k, vs)\<in>set (parse_qs qs True). vs \<noteq> []"
    using parse_qs_nonempty by blast
  from first_values_lookup [OF parse_qs_distinct ne, of "[]"] obtain d where
    r: "first_values [] (parse_qs qs True) = Inr d"
    and l: "\<forall>k. map_of d k = (case map_of (parse_qs qs True) k of Some vs \<Rightarrow> Some (hd vs)
               | None \<Rightarrow> map_of [] k)"
    and dd: "distinct (map fst d)"
    by auto
  have "\<forall>k. map_of d k = (case values_of k (parse_qsl qs True) of [] \<Rightarrow> None | v # _ \<Rightarrow> Some v)"
    using l by (simp add: parse_qs_lookup split: list.split)
  with r dd assms show ?thesis by (simp add: query_params_def)
qed

lemma values_of_first:
  "k \<notin> fst ` set before \<Longrightarrow> values_of k (before @ (k, v) # rest) = v # values_of k rest"
proof -
  assume "k \<notin> fst ` set before"
  then have "filter (\<lambda>p. fst p = k) before = []" by (auto simp: filter_empty_conv)
  then show ?thesis by (simp add: values_of_def)
qed

text \<open>
  C2. Let the query string parse into the pairs \<open>before @ (k, v) # rest\<close> with no pair of
  \<open>before\<close> under the key \<open>k\<close>, so that \<open>(k, v)\<close> is the first occurrence of \<open>k\<close>.
  Then \<open>query_params\<close> returns a dictionary that holds \<open>k\<close> once, with the value \<open>v\<close>,
  whatever \<open>rest\<close> holds under \<open>k\<close>. The query string of
  \<open>?variables=%7B%22a%22%3A1%7D&variables=%7B%22a%22%3A2%7D\<close>, the bytes after the question
  mark, gives \<open>variables = {"a":1}\<close>.
\<close>

theorem query_params_first_value:
  "(\<forall>qs before k v rest.
      decode (scope_query_string (consumer request)) = Inr qs
      \<and> parse_qsl qs True = before @ (k, v) # rest \<and> k \<notin> fst ` set before
      \<longrightarrow> (\<exists>d. query_params request = Inr d \<and> distinct (map fst d) \<and> map_of d k = Some v))
   \<and> query_params (request_of_query ''variables=%7B%22a%22%3A1%7D&variables=%7B%22a%22%3A2%7D'')
       = Inr [(''variables'', ''{\"a\":1}'')]"
proof (intro conjI allI impI)
  fix qs before k v rest
  assume a: "decode (scope_query_string (consumer request)) = Inr qs
      \<and> parse_qsl qs True = before @ (k, v) # rest \<and> k \<notin> fst ` set before"
  from query_params_lookup [of request qs] a obtain d where
    "query_params request = Inr d" "distinct (map fst d)"
    "\<forall>k. map_of d k = (case values_of k (parse_qsl qs True) of [] \<Rightarrow> None | v # _ \<Rightarrow> Some v)"
    by blast
  with a show "\<exists>d. query_params request = Inr d \<and> distinct (map fst d) \<and> map_of d k = Some v"
    by (simp add: values_of_first)
next
  show "query_params (request_of_query ''variables=%7B%22a%22%3A1%7D&variables=%7B%22a%22%3A2%7D'')
       = Inr [(''variables'', ''{\"a\":1}'')]"
    by code_simp
qed

theorem query_params_first_value_witness:
  "decode (scope_query_string (consumer
       (request_of_query ''x=1&query=%7Bhello%7D&query=%7Bbye%7D'')))
     = Inr ''x=1&query=%7Bhello%7D&query=%7Bbye%7D''
   \<and> parse_qsl ''x=1&query=%7Bhello%7D&query=%7Bbye%7D'' True
       = [(''x'', ''1'')] @ (''query'', ''{hello}'') # [(''query'', ''{bye}'')]
   \<and> ''query'' \<notin> fst ` set [(''x'', ''1'')]
   \<and> (\<exists>d. query_params (request_of_query ''x=1&query=%7Bhello%7D&query=%7Bbye%7D'') = Inr d
         \<and> distinct (map fst d) \<and> map_of d ''query'' = Some ''{hello}'')"
proof -
  let ?q = "''x=1&query=%7Bhello%7D&query=%7Bbye%7D''"
  have h1: "decode (scope_query_string (consumer (request_of_query ?q))) = Inr ?q"
    by code_simp
  have h2: "parse_qsl ?q True = [(''x'', ''1'')] @ (''query'', ''{hello}'') # [(''query'', ''{bye}'')]"
    by code_simp
  have h3: "''query'' \<notin> fst ` set [(''x'', ''1'')]"
    by simp
  from query_params_first_value [of "request_of_query ?q"]
  have "\<forall>qs before k v rest.
      decode (scope_query_string (consumer (request_of_query ?q))) = Inr qs
      \<and> parse_qsl qs True = before @ (k, v) # rest \<and> k \<notin> fst ` set before
      \<longrightarrow> (\<exists>d. query_params (request_of_query ?q) = Inr d \<and> distinct (map fst d)
             \<and> map_of d k = Some v)"
    by (rule conjunct1)
  with h1 h2 h3 have "\<exists>d. query_params (request_of_query ?q) = Inr d
         \<and> distinct (map fst d) \<and> map_of d ''query'' = Some ''{hello}''"
    by blast
  with h1 h2 h3 show ?thesis by blast
qed

lemma unquote_plus_Nil: "unquote_plus [] = []"
  by (simp add: unquote_plus_def unquote_def)

lemma parse_field_keep:
  "parse_field True field =
     (if field = [] then []
      else [(unquote_plus (fst (partition_on CHR ''='' field)),
             unquote_plus (snd (partition_on CHR ''='' field)))])"
  by (simp add: parse_field_def split: prod.split)

lemma parse_field_keys:
  "fst ` set (concat (map (parse_field True) fs)) =
     (\<lambda>f. unquote_plus (fst (partition_on CHR ''='' f))) ` {f \<in> set fs. f \<noteq> []}"
  by (induction fs) (auto simp: parse_field_keep)

lemma split_on_field_nonempty:
  assumes "split_on sep qs = earlier @ field # later" and "field \<noteq> []"
  shows "qs \<noteq> []"
proof
  assume "qs = []"
  with assms(1) have "earlier @ field # later = [[]]" by simp
  then have "field = []" by (cases earlier) simp_all
  with assms(2) show False by simp
qed

lemma parse_qsl_fields:
  assumes "split_on CHR ''&'' qs = earlier @ field # later" and "field \<noteq> []"
  shows "parse_qsl qs True =
           concat (map (parse_field True) earlier) @ parse_field True field
             @ concat (map (parse_field True) later)"
  using assms split_on_field_nonempty [OF assms] by (simp add: parse_qsl_def)

lemma parse_field_blank:
  assumes "field \<noteq> []" and "partition_on CHR ''='' field = (name, [])"
  shows "parse_field True field = [(unquote_plus name, [])]"
  by (simp add: parse_field_keep assms unquote_plus_Nil)

lemma values_of_present: "values_of k (before @ (k, v) # rest) \<noteq> []"
  by (simp add: values_of_def)

lemma blank_field_pairs:
  assumes "split_on CHR ''&'' qs = earlier @ field # later"
      and "field \<noteq> []"
      and "partition_on CHR ''='' field = (name, [])"
  shows "parse_qsl qs True =
           concat (map (parse_field True) earlier) @ (unquote_plus name, [])
             # concat (map (parse_field True) later)"
  using parse_qsl_fields [OF assms(1,2)] parse_field_blank [OF assms(2,3)] by simp

text \<open>
  C10, as amended. A field of the query string with a blank value, such as \<open>query=\<close>, is
  kept by the parser, so \<open>query_params\<close> holds its key and does not omit it. The key is
  mapped to the empty string when no earlier field of the query string has the same key.
\<close>

theorem query_params_blank_value:
  assumes "decode (scope_query_string (consumer request)) = Inr qs"
      and "split_on CHR ''&'' qs = earlier @ field # later"
      and "field \<noteq> []"
      and "partition_on CHR ''='' field = (name, [])"
  shows "\<exists>d. query_params request = Inr d
           \<and> (\<exists>v. map_of d (unquote_plus name) = Some v)
           \<and> ((\<forall>f\<in>set earlier. f \<noteq> [] \<longrightarrow>
                  unquote_plus (fst (partition_on CHR ''='' f)) \<noteq> unquote_plus name)
                \<longrightarrow> map_of d (unquote_plus name) = Some [])"
proof -
  note pairs = blank_field_pairs [OF assms(2,3,4)]
  from query_params_lookup [OF assms(1)] obtain d where
    r: "query_params request = Inr d"
    and l: "\<forall>k. map_of d k = (case values_of k (parse_qsl qs True) of [] \<Rightarrow> None | v # _ \<Rightarrow> Some v)"
    by blast
  have "values_of (unquote_plus name) (parse_qsl qs True) \<noteq> []"
    unfolding pairs by (rule values_of_present)
  then obtain v vs where "values_of (unquote_plus name) (parse_qsl qs True) = v # vs"
    by (cases "values_of (unquote_plus name) (parse_qsl qs True)") simp_all
  with l have some: "\<exists>v. map_of d (unquote_plus name) = Some v" by simp
  have first: "map_of d (unquote_plus name) = Some []"
    if "\<forall>f\<in>set earlier. f \<noteq> [] \<longrightarrow>
          unquote_plus (fst (partition_on CHR ''='' f)) \<noteq> unquote_plus name"
  proof -
    from that have "unquote_plus name \<notin>
            (\<lambda>f. unquote_plus (fst (partition_on CHR ''='' f))) ` {f \<in> set earlier. f \<noteq> []}"
      by fastforce
    then have "unquote_plus name \<notin> fst ` set (concat (map (parse_field True) earlier))"
      by (subst parse_field_keys)
    then have "values_of (unquote_plus name) (parse_qsl qs True)
                 = [] # values_of (unquote_plus name) (concat (map (parse_field True) later))"
      unfolding pairs by (rule values_of_first)
    with l show ?thesis by simp
  qed
  from r some first show ?thesis by blast
qed

theorem query_params_blank_value_witness:
  "decode (scope_query_string (consumer (request_of_query ''operationName=q&query=''))) = Inr ''operationName=q&query=''
   \<and> split_on CHR ''&'' ''operationName=q&query='' = [''operationName=q''] @ ''query='' # []
   \<and> ''query='' \<noteq> []
   \<and> partition_on CHR ''='' ''query='' = (''query'', [])
   \<and> unquote_plus (fst (partition_on CHR ''='' ''operationName=q'')) \<noteq> unquote_plus ''query''
   \<and> (\<exists>d. query_params (request_of_query ''operationName=q&query='') = Inr d
         \<and> map_of d (unquote_plus ''query'') = Some [])"
proof -
  have h1: "decode (scope_query_string (consumer (request_of_query ''operationName=q&query=''))) = Inr ''operationName=q&query=''"
    by code_simp
  have h2: "split_on CHR ''&'' ''operationName=q&query='' = [''operationName=q''] @ ''query='' # []"
    by code_simp
  have h3: "''query='' \<noteq> []" by simp
  have h4: "partition_on CHR ''='' ''query='' = (''query'', [])" by code_simp
  have h5: "\<forall>f\<in>set [''operationName=q'']. f \<noteq> [] \<longrightarrow>
                  unquote_plus (fst (partition_on CHR ''='' f)) \<noteq> unquote_plus ''query''"
    by (simp add: partition_on_def unquote_plus_def unquote_def)
  have h6: "unquote_plus (fst (partition_on CHR ''='' ''operationName=q'')) \<noteq> unquote_plus ''query''"
    using h5 by simp
  from query_params_blank_value [OF h1 h2 h3 h4] h5 have
    "\<exists>d. query_params (request_of_query ''operationName=q&query='') = Inr d
         \<and> map_of d (unquote_plus ''query'') = Some []"
    by blast
  with h1 h2 h3 h4 h6 show ?thesis by blast
qed

text \<open>
  C10 as stated fails where an earlier field has the same key: in \<open>query=x&query=\<close> the
  key \<open>query\<close> has a blank value in the second field, and \<open>query_params\<close> maps it to
  \<open>x\<close>.
\<close>

theorem query_params_blank_value_counterexample:
  "split_on CHR ''&'' ''query=x&query='' = [''query=x'', ''query='']
   \<and> partition_on CHR ''='' ''query='' = (''query'', [])
   \<and> query_params (request_of_query ''query=x&query='') = Inr [(''query'', ''x'')]"
  by code_simp

section \<open>The headers of a response\<close>






section \<open>Multipart form data\<close>

lemma get_form_data_needs_headers:
  assumes lib: "django_parser parse" and empty: "json_loads [] = None"
      and ok: "get_form_data json_loads parse upload_handlers request = Inr form_data"
  shows "\<exists>h ct cl. headers request = Inr h \<and> map_of h ''content-type'' = Some ct
           \<and> map_of h ''content-length'' = Some cl"
proof -
  from ok obtain h where h: "headers request = Inr h"
    by (auto simp: get_form_data_def split: sum.splits)
  let ?out = "fst (parse (parser_META h) (new_BytesIO (body request)) upload_handlers)"
  from ok h obtain querydict uploaded where p: "?out = Inr (querydict, uploaded)"
    by (auto simp: get_form_data_def split: sum.splits)
  from ok h p have ops: "json_loads (querydict_get querydict ''operations'' []) \<noteq> None"
    by (auto simp: get_form_data_def split: option.splits)
  have ct: "map_of h ''content-type'' \<noteq> None"
  proof
    assume "map_of h ''content-type'' = None"
    then have "CONTENT_TYPE (parser_META h) = None" by (simp add: parser_META_def)
    with lib obtain e where "?out = Inl e" unfolding django_parser_def by blast
    with p show False by simp
  qed
  have cl: "map_of h ''content-length'' \<noteq> None"
  proof
    assume "map_of h ''content-length'' = None"
    then have "CONTENT_LENGTH (parser_META h) = ''0''"
      by (simp add: parser_META_def dict_get_def)
    with lib p have "querydict = Map.empty" unfolding django_parser_def by blast
    then have "querydict_get querydict ''operations'' [] = []" by (simp add: querydict_get_def)
    with ops empty show False by simp
  qed
  from h ct cl show ?thesis by auto
qed

lemma malformed_field_loads:
  "json_loads [] = None \<Longrightarrow> malformed_field json_loads querydict k
     \<Longrightarrow> json_loads (querydict_get querydict k []) = None"
  by (simp add: malformed_field_def querydict_get_def split: option.splits)

lemma get_form_data_JSONDecodeError:
  assumes empty: "json_loads [] = None"
      and h: "headers request = Inr h"
      and p: "fst (parse (parser_META h) (new_BytesIO (body request)) upload_handlers)
                = Inr (querydict, uploaded)"
      and bad: "malformed_field json_loads querydict ''operations''
                \<or> malformed_field json_loads querydict ''map''"
  shows "get_form_data json_loads parse upload_handlers request = Inl JSONDecodeError"
proof -
  have "json_loads (querydict_get querydict ''operations'' []) = None
        \<or> json_loads (querydict_get querydict ''map'' []) = None"
    using bad malformed_field_loads [of json_loads querydict "''operations''"]
      malformed_field_loads [of json_loads querydict "''map''"] empty
    by auto
  then show ?thesis using h p by (auto simp: get_form_data_def split: option.splits)
qed

text \<open>
  C3. \<open>get_form_data\<close> gives the parser the \<open>content-type\<close> header and the
  \<open>content-length\<close> header, \<open>0\<close> when there is none; with Django's parser it succeeds
  only on a request that has both. When the parser returns and the field \<open>operations\<close> or
  the field \<open>map\<close> is absent or is not valid JSON, \<open>get_form_data\<close> raises
  \<open>JSONDecodeError\<close>; the base view's \<open>run\<close> then raises the \<open>HTTPException\<close> of status
  400 whatever the rest of \<open>run\<close>, the engine included, would do, and \<open>handle\<close> sends a
  response of status 400. The hypotheses are that the parser behaves as Django's and that
  \<open>json.loads\<close> rejects the empty text.
\<close>

theorem get_form_data_malformed:
  assumes "django_parser parse" and "json_loads [] = None"
  shows "(\<forall>form_data. get_form_data json_loads parse upload_handlers request = Inr form_data \<longrightarrow>
            (\<exists>h ct cl. headers request = Inr h \<and> map_of h ''content-type'' = Some ct
               \<and> map_of h ''content-length'' = Some cl))
       \<and> (\<forall>h querydict uploaded.
             headers request = Inr h
             \<and> fst (parse (parser_META h) (new_BytesIO (body request)) upload_handlers)
                 = Inr (querydict, uploaded)
             \<and> (malformed_field json_loads querydict ''operations''
                  \<or> malformed_field json_loads querydict ''map'')
             \<longrightarrow> get_form_data json_loads parse upload_handlers request = Inl JSONDecodeError
               \<and> run_multipart json_loads parse upload_handlers reason continue request
                   = Inl (HTTPException 400 reason)
               \<and> (consumer request = scope self \<longrightarrow>
                    handle (run_multipart json_loads parse upload_handlers reason continue) self
                      (body request)
                    = Inr (send_response 400 (encode reason) None)))"
proof (intro conjI allI impI)
  fix form_data
  assume "get_form_data json_loads parse upload_handlers request = Inr form_data"
  with assms show "\<exists>h ct cl. headers request = Inr h \<and> map_of h ''content-type'' = Some ct
               \<and> map_of h ''content-length'' = Some cl"
    by (rule get_form_data_needs_headers)
next
  fix h querydict uploaded
  assume a: "headers request = Inr h
             \<and> fst (parse (parser_META h) (new_BytesIO (body request)) upload_handlers)
                 = Inr (querydict, uploaded)
             \<and> (malformed_field json_loads querydict ''operations''
                  \<or> malformed_field json_loads querydict ''map'')"
  then have e: "get_form_data json_loads parse upload_handlers request = Inl JSONDecodeError"
    using get_form_data_JSONDecodeError
            [of json_loads request h parse upload_handlers querydict uploaded] assms(2)
    by auto
  then have r: "run_multipart json_loads parse upload_handlers reason continue request
                   = Inl (HTTPException 400 reason)"
    by (simp add: run_multipart_def)
  have s: "handle (run_multipart json_loads parse upload_handlers reason continue) self
                      (body request)
                    = Inr (send_response 400 (encode reason) None)"
    if "consumer request = scope self"
  proof -
    from that have "\<lparr>consumer = scope self, body = body request\<rparr> = request" by simp
    with r show ?thesis by (simp add: handle_def)
  qed
  from e show "get_form_data json_loads parse upload_handlers request = Inl JSONDecodeError" .
  from r show "run_multipart json_loads parse upload_handlers reason continue request
                   = Inl (HTTPException 400 reason)" .
  show "handle (run_multipart json_loads parse upload_handlers reason continue) self
                      (body request)
                    = Inr (send_response 400 (encode reason) None)"
    if "consumer request = scope self" using that by (rule s)
qed

theorem get_form_data_malformed_witness:
  "django_parser demo_parser
   \<and> demo_json_loads [] = None
   \<and> get_form_data demo_json_loads demo_parser ()
         (post_request (multipart_headers ''20'') ''operations={}&map={}'')
       = Inr \<lparr>files = [], form = [(''operations'', ''{}''), (''map'', ''{}'')]\<rparr>
   \<and> (\<exists>h ct cl. headers (post_request (multipart_headers ''20'') ''operations={}&map={}'') = Inr h
         \<and> map_of h ''content-type'' = Some ct \<and> map_of h ''content-length'' = Some cl)
   \<and> malformed_field demo_json_loads (map_of [(''operations'', ''{}'')]) ''map''
   \<and> get_form_data demo_json_loads demo_parser ()
         (post_request (multipart_headers ''13'') ''operations={}'') = Inl JSONDecodeError
   \<and> handle (run_multipart demo_json_loads demo_parser () ''Unable to parse request body as JSON''
               execute_form)
         (post_consumer (multipart_headers ''13'')) ''operations={}''
       = Inr (send_response 400 ''Unable to parse request body as JSON'' None)"
proof -
  let ?ok = "post_request (multipart_headers ''20'') ''operations={}&map={}''"
  let ?bad = "post_request (multipart_headers ''13'') ''operations={}''"
  let ?h = "[(''content-type'', ''multipart/form-data; boundary=x''), (''content-length'', ''13'')]"
  let ?qd = "map_of [(''operations'', ''{}'')] :: QueryDict"
  have lib: "django_parser demo_parser"
    by (simp add: django_parser_def demo_parser_def)
  have empty: "demo_json_loads [] = None"
    by (simp add: demo_json_loads_def)
  have ok: "get_form_data demo_json_loads demo_parser () ?ok
              = Inr \<lparr>files = [], form = [(''operations'', ''{}''), (''map'', ''{}'')]\<rparr>"
    by code_simp
  from get_form_data_malformed [of demo_parser demo_json_loads "()" ?ok] lib empty ok
  have hd: "\<exists>h ct cl. headers ?ok = Inr h
         \<and> map_of h ''content-type'' = Some ct \<and> map_of h ''content-length'' = Some cl"
    by blast
  have h: "headers ?bad = Inr ?h"
    by code_simp
  have pairs: "parse_qsl ''operations={}'' True = [(''operations'', ''{}'')]"
    by code_simp
  have p: "fst (demo_parser (parser_META ?h) (new_BytesIO (body ?bad)) ()) = Inr (?qd, [])"
    by (simp add: demo_parser_def parser_META_def new_BytesIO_def unread_def dict_get_def
          post_request_def pairs)
  have m: "malformed_field demo_json_loads ?qd ''map''"
    by (simp add: malformed_field_def)
  have sc: "consumer ?bad = scope (post_consumer (multipart_headers ''13''))"
    by (simp add: post_request_def post_consumer_def)
  have b: "body ?bad = ''operations={}''"
    by (simp add: post_request_def)
  from get_form_data_malformed [of demo_parser demo_json_loads "()" ?bad
      "''Unable to parse request body as JSON''" execute_form
      "post_consumer (multipart_headers ''13'')"] lib empty h p m sc
  have "get_form_data demo_json_loads demo_parser () ?bad = Inl JSONDecodeError
        \<and> handle (run_multipart demo_json_loads demo_parser ()
                    ''Unable to parse request body as JSON'' execute_form)
              (post_consumer (multipart_headers ''13'')) (body ?bad)
            = Inr (send_response 400 (encode ''Unable to parse request body as JSON'') None)"
    by blast
  with lib empty ok hd m show ?thesis
    by (simp add: b encode_def)
qed

end
